theory Spec2Isabelle
  imports Main "HOL-Library.Word"
begin

section \<open>JavaScript values\<close>

text \<open>
  The sources hold four versions of the same server: \<open>part_000\<close>, and three in
  \<open>index.ts\<close> (lines 1-100, 101-284 and 285-369), called its first, second and third
  variant here. They share the joke handlers and the Express routes and differ in the
  weather handler.

  The server is TypeScript compiled to JavaScript; its handlers take \<open>any\<close> value, so
  what they do is decided by the run-time values. A string is the list of its UTF-16
  code units. \<open>ascii\<close> writes an ASCII literal; the few other characters of the source
  are given by their code unit (the degree sign is \<open>0xB0\<close>).
\<close>

type_synonym jsstring = "16 word list"

definition ascii :: "string \<Rightarrow> jsstring" where
  "ascii s = map of_char s"

text \<open>
  The values a handler meets: what \<open>JSON.parse\<close> builds, and \<open>undefined\<close> (a missing
  property, a missing argument). An object is the list of its own properties. A number
  is a double, and all the code does with one is test its truthiness and convert it to
  a string; it is kept as the text that \<open>Number.prototype.toString\<close> prints for it
  (\<open>15\<close>, \<open>-3.5\<close>, \<open>1152921504606847000\<close>, \<open>1e+21\<close>), which determines the number.
\<close>

datatype json =
    JUndefined
  | JNull
  | JBool bool
  | JNum jsstring
  | JStr jsstring
  | JArr "json list"
  | JObj "(jsstring \<times> json) list"

text \<open>
  What a \<open>throw\<close> carries. \<open>FetchFailed\<close> is the rejection of \<open>fetch\<close> (host
  unreachable, connection reset, the runtime's own time limit), \<open>SyntaxError\<close> the
  rejection of \<open>r.json()\<close> on a body that is not JSON, \<open>Error m\<close> is \<open>new Error(m)\<close>.
\<close>

datatype js_error = TypeError | URIError | SyntaxError | FetchFailed | Error jsstring

text \<open>An expression or an async function either returns (resolves) or throws (rejects).\<close>

datatype 'a completion = Returned 'a | Thrown js_error

fun bind_completion :: "'a completion \<Rightarrow> ('a \<Rightarrow> 'b completion) \<Rightarrow> 'b completion" where
  "bind_completion (Thrown e) f = Thrown e"
| "bind_completion (Returned v) f = f v"

text \<open>
  \<open>!v\<close> is \<open>\<not> truthy v\<close>. The falsy numbers are \<open>0\<close>, \<open>-0\<close> (both print as \<open>0\<close>)
  and \<open>NaN\<close>.
\<close>

fun truthy :: "json \<Rightarrow> bool" where
  "truthy JUndefined = False"
| "truthy JNull = False"
| "truthy (JBool b) = b"
| "truthy (JNum n) = (n \<noteq> ascii ''0'' \<and> n \<noteq> ascii ''NaN'')"
| "truthy (JStr s) = (s \<noteq> [])"
| "truthy (JArr xs) = True"
| "truthy (JObj kvs) = True"

definition own_prop :: "(jsstring \<times> json) list \<Rightarrow> jsstring \<Rightarrow> json" where
  "own_prop kvs k = (case map_of kvs k of None \<Rightarrow> JUndefined | Some v \<Rightarrow> v)"

text \<open>
  \<open>v.k\<close> and the destructuring \<open>const { k } = v\<close>: a TypeError on \<open>undefined\<close> and
  \<open>null\<close>, the own property of an object, \<open>undefined\<close> otherwise. The names the
  handlers read (\<open>value\<close>, \<open>joke\<close>, \<open>city\<close>, \<open>current_condition\<close>,
  \<open>weatherDesc\<close>, \<open>temp_C\<close>, \<open>temp_F\<close>, \<open>humidity\<close>, \<open>windspeedKmph\<close>) are
  members of no prototype, so a read that misses the own properties is \<open>undefined\<close>.
\<close>

fun get_prop :: "json \<Rightarrow> jsstring \<Rightarrow> json completion" where
  "get_prop JUndefined k = Thrown TypeError"
| "get_prop JNull k = Thrown TypeError"
| "get_prop (JObj kvs) k = Returned (own_prop kvs k)"
| "get_prop v k = Returned JUndefined"

text \<open>\<open>v?.k\<close>: \<open>undefined\<close> on \<open>undefined\<close> and \<open>null\<close>, else the read; it never throws.\<close>

fun opt_prop :: "json \<Rightarrow> jsstring \<Rightarrow> json" where
  "opt_prop (JObj kvs) k = own_prop kvs k"
| "opt_prop v k = JUndefined"

text \<open>
  \<open>v?.[0]\<close>: the first element of an array, the first code unit of a string (as a
  string), the own property \<open>"0"\<close> of an object, \<open>undefined\<close> otherwise.
\<close>

fun opt_index0 :: "json \<Rightarrow> json" where
  "opt_index0 (JArr xs) = (case xs of [] \<Rightarrow> JUndefined | x # _ \<Rightarrow> x)"
| "opt_index0 (JStr s) = (case s of [] \<Rightarrow> JUndefined | c # _ \<Rightarrow> JStr [c])"
| "opt_index0 (JObj kvs) = own_prop kvs (ascii ''0'')"
| "opt_index0 v = JUndefined"

subsection \<open>Conversion to string\<close>

text \<open>
  \<open>ToString\<close>, as a template literal \<open>`${v}`\<close> and \<open>Array.prototype.join\<close> apply it.
  A number gives its printed text. An array is its elements joined by a comma, \<open>undefined\<close> and \<open>null\<close> elements
  giving the empty string. An object is \<open>[object Object]\<close> by
  \<open>Object.prototype.toString\<close>, unless it has an own property \<open>toString\<close>: a parsed
  value is never a function, so the conversion finds no callable \<open>toString\<close>, then
  \<open>valueOf\<close> gives back the object, and it throws a TypeError.
\<close>

fun to_string :: "json \<Rightarrow> jsstring completion"
  and join_elements :: "jsstring \<Rightarrow> json list \<Rightarrow> jsstring completion" where
  "to_string JUndefined = Returned (ascii ''undefined'')"
| "to_string JNull = Returned (ascii ''null'')"
| "to_string (JBool b) = Returned (if b then ascii ''true'' else ascii ''false'')"
| "to_string (JNum n) = Returned n"
| "to_string (JStr s) = Returned s"
| "to_string (JArr xs) = join_elements (ascii '','') xs"
| "to_string (JObj kvs) =
     (if map_of kvs (ascii ''toString'') \<noteq> None then Thrown TypeError
      else Returned (ascii ''[object Object]''))"
| "join_elements sep [] = Returned []"
| "join_elements sep (x # xs) =
     bind_completion
       (case x of JUndefined \<Rightarrow> Returned [] | JNull \<Rightarrow> Returned [] | _ \<Rightarrow> to_string x)
       (\<lambda>s. if xs = [] then Returned s
            else bind_completion (join_elements sep xs) (\<lambda>r. Returned (s @ sep @ r)))"

text \<open>
  \<open>data.join(", ")\<close> on a parsed value: the array method on an array; on anything
  else \<open>join\<close> is not a function (or \<open>data\<close> is \<open>null\<close>) and the call throws.
\<close>

fun call_join :: "json \<Rightarrow> jsstring \<Rightarrow> jsstring completion" where
  "call_join (JArr xs) sep = join_elements sep xs"
| "call_join v sep = Thrown TypeError"

subsection \<open>\<open>trim\<close> and \<open>encodeURIComponent\<close>\<close>

text \<open>The white space and line terminators of ECMAScript.\<close>

definition is_js_space :: "16 word \<Rightarrow> bool" where
  "is_js_space c =
     (c \<in> {0x9, 0xA, 0xB, 0xC, 0xD, 0x20, 0xA0, 0x1680, 0x2028, 0x2029, 0x202F, 0x205F,
           0x3000, 0xFEFF}
      \<or> (0x2000 \<le> c \<and> c \<le> 0x200A))"

definition trim :: "jsstring \<Rightarrow> jsstring" where
  "trim s = rev (dropWhile is_js_space (rev (dropWhile is_js_space s)))"

text \<open>
  \<open>v?.trim()\<close>: \<open>undefined\<close> on \<open>undefined\<close> and \<open>null\<close>; the trimmed string on a
  string; on any other value \<open>trim\<close> is not a function and the call throws.
\<close>

fun opt_trim :: "json \<Rightarrow> json completion" where
  "opt_trim JUndefined = Returned JUndefined"
| "opt_trim JNull = Returned JUndefined"
| "opt_trim (JStr s) = Returned (JStr (trim s))"
| "opt_trim v = Thrown TypeError"

text \<open>The characters \<open>encodeURIComponent\<close> leaves as they are: \<open>A-Z a-z 0-9 - _ . ! ~ * ' ( )\<close>.\<close>

definition uri_unreserved :: "16 word \<Rightarrow> bool" where
  "uri_unreserved c =
     ((0x41 \<le> c \<and> c \<le> 0x5A) \<or> (0x61 \<le> c \<and> c \<le> 0x7A) \<or> (0x30 \<le> c \<and> c \<le> 0x39)
      \<or> c \<in> {0x2D, 0x5F, 0x2E, 0x21, 0x7E, 0x2A, 0x27, 0x28, 0x29})"

definition hex_digit :: "nat \<Rightarrow> 16 word" where
  "hex_digit d = (if d < 10 then of_nat (48 + d) else of_nat (55 + d))"

definition percent :: "nat \<Rightarrow> jsstring" where
  "percent b = [0x25, hex_digit (b div 16), hex_digit (b mod 16)]"

text \<open>The UTF-8 bytes of a code point.\<close>

definition utf8 :: "nat \<Rightarrow> nat list" where
  "utf8 cp =
     (if cp < 0x80 then [cp]
      else if cp < 0x800 then [0xC0 + cp div 0x40, 0x80 + cp mod 0x40]
      else if cp < 0x10000 then
        [0xE0 + cp div 0x1000, 0x80 + (cp div 0x40) mod 0x40, 0x80 + cp mod 0x40]
      else
        [0xF0 + cp div 0x40000, 0x80 + (cp div 0x1000) mod 0x40,
         0x80 + (cp div 0x40) mod 0x40, 0x80 + cp mod 0x40])"

definition is_high_surrogate :: "16 word \<Rightarrow> bool" where
  "is_high_surrogate c = (0xD800 \<le> c \<and> c \<le> 0xDBFF)"

definition is_low_surrogate :: "16 word \<Rightarrow> bool" where
  "is_low_surrogate c = (0xDC00 \<le> c \<and> c \<le> 0xDFFF)"

text \<open>
  The encoding of a string: an unreserved character stays, any other code point is
  written as its UTF-8 bytes, each as \<open>%XX\<close>; a surrogate without its partner is a
  URIError.
\<close>

fun encode_units :: "jsstring \<Rightarrow> jsstring completion" where
  "encode_units [] = Returned []"
| "encode_units [c] =
     (if uri_unreserved c then Returned [c]
      else if is_low_surrogate c \<or> is_high_surrogate c then Thrown URIError
      else Returned (concat (map percent (utf8 (unat c)))))"
| "encode_units (c # d # cs) =
     (if uri_unreserved c then
        bind_completion (encode_units (d # cs)) (\<lambda>r. Returned (c # r))
      else if is_low_surrogate c then Thrown URIError
      else if is_high_surrogate c then
        (if is_low_surrogate d then
           bind_completion (encode_units cs)
             (\<lambda>r. Returned (concat (map percent
                (utf8 ((unat c - 0xD800) * 0x400 + (unat d - 0xDC00) + 0x10000))) @ r))
         else Thrown URIError)
      else
        bind_completion (encode_units (d # cs))
          (\<lambda>r. Returned (concat (map percent (utf8 (unat c))) @ r)))"

definition encodeURIComponent :: "json \<Rightarrow> jsstring completion" where
  "encodeURIComponent v = bind_completion (to_string v) encode_units"

section \<open>The upstream services\<close>

text \<open>
  \<open>fetch(url, { headers })\<close> followed by \<open>r.json()\<close>. The environment decides, for
  each request, whether \<open>fetch\<close> rejects, the body is not JSON, or the body parses to a
  value. An HTTP error status still resolves: only the body counts.
\<close>

datatype upstream_reply = FetchRejected | BodyNotJson | BodyJson json

type_synonym fetch_env = "jsstring \<Rightarrow> (jsstring \<times> jsstring) list \<Rightarrow> upstream_reply"

definition fetch_json :: "fetch_env \<Rightarrow> jsstring \<Rightarrow> (jsstring \<times> jsstring) list \<Rightarrow> json completion" where
  "fetch_json fetch u headers =
     (case fetch u headers of
        FetchRejected \<Rightarrow> Thrown FetchFailed
      | BodyNotJson \<Rightarrow> Thrown SyntaxError
      | BodyJson v \<Rightarrow> Returned v)"

section \<open>The tool handlers\<close>

text \<open>
  What a handler returns: \<open>{ content: [{ type: ..., text: ... }] }\<close>. The \<open>text\<close> of a
  block is whatever value the handler put there.
\<close>

record content_block =
  type_field :: jsstring
  text_field :: json

record tool_result =
  content :: "content_block list"

subsection \<open>The joke handlers\<close>

text \<open>
  The four joke handlers are the same in \<open>part_000\<close> and in the three variants of
  \<open>index.ts\<close> (\<open>const { value } = ...\<close> and \<open>data.value\<close> read the same property and
  throw on the same values). They ignore their arguments and have no \<open>try\<close>.
\<close>

definition getChuckJoke :: "fetch_env \<Rightarrow> tool_result completion" where
  "getChuckJoke fetch =
     bind_completion (fetch_json fetch (ascii ''https://api.chucknorris.io/jokes/random'') [])
       (\<lambda>data. bind_completion (get_prop data (ascii ''value''))
          (\<lambda>v. Returned \<lparr>content = [\<lparr>type_field = ascii ''text'', text_field = v\<rparr>]\<rparr>))"

definition getChuckCategories :: "fetch_env \<Rightarrow> tool_result completion" where
  "getChuckCategories fetch =
     bind_completion (fetch_json fetch (ascii ''https://api.chucknorris.io/jokes/categories'') [])
       (\<lambda>data. bind_completion (call_join data (ascii '', ''))
          (\<lambda>s. Returned \<lparr>content = [\<lparr>type_field = ascii ''text'', text_field = JStr s\<rparr>]\<rparr>))"

definition getDadJoke :: "fetch_env \<Rightarrow> tool_result completion" where
  "getDadJoke fetch =
     bind_completion
       (fetch_json fetch (ascii ''https://icanhazdadjoke.com/'')
          [(ascii ''Accept'', ascii ''application/json'')])
       (\<lambda>data. bind_completion (get_prop data (ascii ''joke''))
          (\<lambda>v. Returned \<lparr>content = [\<lparr>type_field = ascii ''text'', text_field = v\<rparr>]\<rparr>))"

definition getYoMamaJoke :: "fetch_env \<Rightarrow> tool_result completion" where
  "getYoMamaJoke fetch =
     bind_completion
       (fetch_json fetch (ascii ''https://www.yomama-jokes.com/api/v1/jokes/random'') [])
       (\<lambda>data. bind_completion (get_prop data (ascii ''joke''))
          (\<lambda>v. Returned \<lparr>content = [\<lparr>type_field = ascii ''text'', text_field = v\<rparr>]\<rparr>))"

subsection \<open>The weather handler\<close>

text \<open>
  The reply template, the same text in all four variants:
  \<^verbatim>\<open>Weather in ${city}: ${desc}. Temp ${tempC} [deg]C (${tempF} [deg]F), Humidity ${humidity} %, Wind ${wind} km/h.\<close>
  where \<open>[deg]\<close> is the degree sign, \<open>desc\<close> is \<open>current.weatherDesc?.[0]?.value\<close> and
  the others are plain reads of \<open>current\<close>. \<open>parts\<close> concatenates the conversions to
  string from left to right, as the template does.
\<close>

fun parts :: "(jsstring + json) list \<Rightarrow> jsstring completion" where
  "parts [] = Returned []"
| "parts (Inl s # ps) = bind_completion (parts ps) (\<lambda>r. Returned (s @ r))"
| "parts (Inr v # ps) =
     bind_completion (to_string v) (\<lambda>s. bind_completion (parts ps) (\<lambda>r. Returned (s @ r)))"

definition weather_reply :: "json \<Rightarrow> json \<Rightarrow> jsstring completion" where
  "weather_reply city current =
     bind_completion (get_prop current (ascii ''weatherDesc'')) (\<lambda>wd.
     bind_completion (get_prop current (ascii ''temp_C'')) (\<lambda>tempC.
     bind_completion (get_prop current (ascii ''temp_F'')) (\<lambda>tempF.
     bind_completion (get_prop current (ascii ''humidity'')) (\<lambda>humidity.
     bind_completion (get_prop current (ascii ''windspeedKmph'')) (\<lambda>wind.
       parts
         [Inl (ascii ''Weather in ''), Inr city, Inl (ascii '': ''),
          Inr (opt_prop (opt_index0 wd) (ascii ''value'')),
          Inl (ascii ''. Temp ''), Inr tempC, Inl (ascii '' '' @ [0xB0] @ ascii ''C (''),
          Inr tempF, Inl (ascii '' '' @ [0xB0] @ ascii ''F), Humidity ''),
          Inr humidity, Inl (ascii '' %, Wind ''), Inr wind, Inl (ascii '' km/h.'')])))))"

text \<open>
  The apology
  \<^verbatim>\<open>Sorry[em dash]couldn[right quote]t fetch weather for [left dq]${city}[right dq].\<close>
  with the em dash \<open>0x2014\<close>, the right single quotation mark \<open>0x2019\<close> and the double
  quotation marks \<open>0x201C\<close>, \<open>0x201D\<close>.
\<close>

definition apology :: "json \<Rightarrow> tool_result completion" where
  "apology city =
     bind_completion
       (parts [Inl (ascii ''Sorry'' @ [0x2014] @ ascii ''couldn'' @ [0x2019]
                 @ ascii ''t fetch weather for '' @ [0x201C]),
               Inr city, Inl ([0x201D] @ ascii ''.'')])
       (\<lambda>s. Returned \<lparr>content = [\<lparr>type_field = ascii ''text'', text_field = JStr s\<rparr>]\<rparr>)"

text \<open>
  The body of the \<open>try\<close> block of \<open>part_000\<close> and of the first two variants of
  \<open>index.ts\<close>; they differ in the message of the Error thrown when
  \<open>current_condition?.[0]\<close> is falsy (\<open>msg\<close>), which the \<open>catch\<close> discards.
\<close>

definition weather_try :: "jsstring \<Rightarrow> fetch_env \<Rightarrow> json \<Rightarrow> tool_result completion" where
  "weather_try msg fetch city =
     bind_completion (encodeURIComponent city) (\<lambda>enc.
     bind_completion (fetch_json fetch (ascii ''https://wttr.in/'' @ enc @ ascii ''?format=j1'') []) (\<lambda>data.
     bind_completion (get_prop data (ascii ''current_condition'')) (\<lambda>cc.
       if \<not> truthy (opt_index0 cc) then Thrown (Error msg)
       else bind_completion (weather_reply city (opt_index0 cc))
         (\<lambda>reply. Returned \<lparr>content = [\<lparr>type_field = ascii ''text'', text_field = JStr reply\<rparr>]\<rparr>))))"

text \<open>\<open>try { body } catch { return apology }\<close>: whatever the body throws, the apology is built.\<close>

definition try_catch :: "tool_result completion \<Rightarrow> tool_result completion \<Rightarrow> tool_result completion" where
  "try_catch body handler = (case body of Returned r \<Rightarrow> Returned r | Thrown e \<Rightarrow> handler)"

text \<open>
  \<open>part_000\<close>: \<open>async (params: { city?: string }) =>\<close>, with
  \<open>const city = params.city?.trim()\<close>, the guard \<open>if (!city)\<close> and the \<open>try\<close>.
\<close>

definition getWeather :: "fetch_env \<Rightarrow> json \<Rightarrow> tool_result completion" where
  "getWeather fetch params =
     bind_completion (get_prop params (ascii ''city'')) (\<lambda>c.
     bind_completion (opt_trim c) (\<lambda>city.
       if \<not> truthy city then
         Returned \<lparr>content = [\<lparr>type_field = ascii ''text'',
           text_field = JStr (ascii ''Please specify a city name (e.g. London).'')\<rparr>]\<rparr>
       else try_catch (weather_try (ascii ''No weather data'') fetch city) (apology city)))"

text \<open>
  \<open>index.ts\<close>, first variant: \<open>async (params: any, _extra: any) =>\<close>, with
  \<open>const city = params?.city\<close>.
\<close>

definition getWeather_index1 :: "fetch_env \<Rightarrow> json \<Rightarrow> tool_result completion" where
  "getWeather_index1 fetch params =
     (let city = opt_prop params (ascii ''city'') in
      if \<not> truthy city then
        Returned \<lparr>content = [\<lparr>type_field = ascii ''text'',
          text_field = JStr (ascii ''Please tell me which city.'')\<rparr>]\<rparr>
      else try_catch (weather_try (ascii ''No data'') fetch city) (apology city))"

text \<open>\<open>index.ts\<close>, second variant: \<open>async ({ city }: { city?: string }) =>\<close>.\<close>

definition getWeather_index2 :: "fetch_env \<Rightarrow> json \<Rightarrow> tool_result completion" where
  "getWeather_index2 fetch params =
     bind_completion (get_prop params (ascii ''city'')) (\<lambda>city.
       if \<not> truthy city then
         Returned \<lparr>content = [\<lparr>type_field = ascii ''text'',
           text_field = JStr (ascii ''Please specify a city name (e.g. London).'')\<rparr>]\<rparr>
       else try_catch (weather_try (ascii ''No weather data'') fetch city) (apology city))"

text \<open>
  \<open>index.ts\<close>, third variant: \<open>async ({ city }: { city: string }) =>\<close>, with no guard
  and no \<open>try\<close>; a falsy \<open>current_condition?.[0]\<close> returns the apology.
\<close>

definition getWeather_index3 :: "fetch_env \<Rightarrow> json \<Rightarrow> tool_result completion" where
  "getWeather_index3 fetch params =
     bind_completion (get_prop params (ascii ''city'')) (\<lambda>city.
     bind_completion (encodeURIComponent city) (\<lambda>enc.
     bind_completion (fetch_json fetch (ascii ''https://wttr.in/'' @ enc @ ascii ''?format=j1'') []) (\<lambda>data.
     bind_completion (get_prop data (ascii ''current_condition'')) (\<lambda>cur.
       if \<not> truthy (opt_index0 cur) then apology city
       else bind_completion (weather_reply city (opt_index0 cur))
         (\<lambda>reply. Returned \<lparr>content = [\<lparr>type_field = ascii ''text'', text_field = JStr reply\<rparr>]\<rparr>)))))"

text \<open>The handlers registered by one program, applied to the same request.\<close>

definition handlers_part_000 :: "fetch_env \<Rightarrow> json \<Rightarrow> tool_result completion list" where
  "handlers_part_000 fetch params =
     [getChuckJoke fetch, getChuckCategories fetch, getDadJoke fetch, getYoMamaJoke fetch,
      getWeather fetch params]"

definition handlers_index1 :: "fetch_env \<Rightarrow> json \<Rightarrow> tool_result completion list" where
  "handlers_index1 fetch params =
     [getChuckJoke fetch, getChuckCategories fetch, getDadJoke fetch, getYoMamaJoke fetch,
      getWeather_index1 fetch params]"

definition handlers_index2 :: "fetch_env \<Rightarrow> json \<Rightarrow> tool_result completion list" where
  "handlers_index2 fetch params =
     [getChuckJoke fetch, getChuckCategories fetch, getDadJoke fetch, getYoMamaJoke fetch,
      getWeather_index2 fetch params]"

definition handlers_index3 :: "fetch_env \<Rightarrow> json \<Rightarrow> tool_result completion list" where
  "handlers_index3 fetch params =
     [getChuckJoke fetch, getChuckCategories fetch, getDadJoke fetch, getYoMamaJoke fetch,
      getWeather_index3 fetch params]"

text \<open>Shapes of a result: one block of type \<open>"text"\<close>; a block whose text is a string.\<close>

definition one_text_block :: "tool_result \<Rightarrow> bool" where
  "one_text_block r =
     (case content r of [b] \<Rightarrow> type_field b = ascii ''text'' | _ \<Rightarrow> False)"

definition string_payload :: "tool_result \<Rightarrow> bool" where
  "string_payload r =
     (case content r of
        [b] \<Rightarrow> (case text_field b of JStr s \<Rightarrow> True | _ \<Rightarrow> False)
      | _ \<Rightarrow> False)"

text \<open>Environments for concrete runs: the same reply to every request.\<close>

definition fetch_always :: "upstream_reply \<Rightarrow> fetch_env" where
  "fetch_always reply u headers = reply"

definition weather_payload :: "json \<Rightarrow> json \<Rightarrow> json \<Rightarrow> json \<Rightarrow> json \<Rightarrow> json" where
  "weather_payload desc tempC tempF humidity wind =
     JObj [(ascii ''current_condition'',
            JArr [JObj [(ascii ''temp_C'', tempC), (ascii ''temp_F'', tempF),
                        (ascii ''humidity'', humidity),
                        (ascii ''weatherDesc'', JArr [JObj [(ascii ''value'', desc)]]),
                        (ascii ''windspeedKmph'', wind)]])]"

definition london_payload :: json where
  "london_payload =
     weather_payload (JStr (ascii ''Cloudy'')) (JStr (ascii ''15'')) (JStr (ascii ''59''))
       (JStr (ascii ''70'')) (JStr (ascii ''10''))"

definition london_reply :: jsstring where
  "london_reply =
     ascii ''Weather in London: Cloudy. Temp 15 '' @ [0xB0] @ ascii ''C (59 '' @ [0xB0]
       @ ascii ''F), Humidity 70 %, Wind 10 km/h.''"


section \<open>The Express routes and the session registry\<close>

text \<open>
  \<open>const transports: Record<string, SSEServerTransport> = {}\<close>: an object literal used
  as a dictionary. Its own properties are the registered sessions. The transport is the
  SDK's object; the program sets its endpoint and response and reads its \<open>sessionId\<close>,
  which the SDK's constructor draws (a random UUID).
\<close>

record transport =
  sessionId :: jsstring
  endpoint :: jsstring
  res :: nat

type_synonym registry = "jsstring \<rightharpoonup> transport"

text \<open>
  A read \<open>obj[k]\<close> takes the own property, and where there is none walks the prototype
  chain: the object literal inherits the members of \<open>Object.prototype\<close>, each of them a
  function or (for \<open>__proto__\<close>) the prototype object, all truthy.
\<close>

definition object_prototype_names :: "jsstring list" where
  "object_prototype_names =
     map ascii
       [''constructor'', ''__proto__'', ''hasOwnProperty'', ''isPrototypeOf'',
        ''propertyIsEnumerable'', ''toLocaleString'', ''toString'', ''valueOf'',
        ''__defineGetter__'', ''__defineSetter__'', ''__lookupGetter__'',
        ''__lookupSetter__'']"

datatype 'a property_read = Own 'a | Inherited | Missing

definition read_property :: "(jsstring \<rightharpoonup> 'a) \<Rightarrow> jsstring \<Rightarrow> 'a property_read" where
  "read_property obj k =
     (case obj k of
        Some v \<Rightarrow> Own v
      | None \<Rightarrow> if k \<in> set object_prototype_names then Inherited else Missing)"

text \<open>
  A value of the request that may be absent (\<open>req.get("host")\<close>,
  \<open>req.query.sessionId\<close>), used in a template or as a property key: \<open>undefined\<close>
  becomes the string \<open>undefined\<close>. (A repeated or nested query parameter is used as
  a key through its conversion to string as well, so it is some string here.)
\<close>

definition string_of :: "jsstring option \<Rightarrow> jsstring" where
  "string_of v = (case v of None \<Rightarrow> ascii ''undefined'' | Some s \<Rightarrow> s)"

text \<open>
  What a route does besides changing the registry: it hands the transport to the SDK
  (\<open>server.connect(transport)\<close>, \<open>transport.handlePostMessage(req, res)\<close>: tools run and
  streams are written only in there), answers on the request's own response
  (\<open>res.status(n).send(body)\<close>), or throws.
\<close>

datatype effect =
    Connect transport
  | HandlePostMessage transport
  | Send nat jsstring
  | Throws js_error

text \<open>
  \<open>app.get("/sse")\<close>. \<open>host\<close> is \<open>req.get("host")\<close>, \<open>r\<close> the response, \<open>sid\<close> the
  \<open>sessionId\<close> of the new transport.
\<close>

definition get_sse :: "registry \<Rightarrow> jsstring option \<Rightarrow> nat \<Rightarrow> jsstring \<Rightarrow> registry \<times> effect list" where
  "get_sse m host r sid =
     (let t = \<lparr>sessionId = sid,
               endpoint = ascii ''https://'' @ string_of host @ ascii ''/jokes'',
               res = r\<rparr>
      in (m(sessionId t \<mapsto> t), [Connect t]))"

text \<open>The callback of \<open>res.on("close", ...)\<close>: \<open>delete transports[transport.sessionId]\<close>.\<close>

definition on_close :: "jsstring \<Rightarrow> registry \<Rightarrow> registry" where
  "on_close sid m = m(sid := None)"

text \<open>\<open>app.post("/jokes")\<close>. \<open>q\<close> is \<open>req.query.sessionId\<close>.\<close>

definition post_jokes :: "registry \<Rightarrow> jsstring option \<Rightarrow> registry \<times> effect list" where
  "post_jokes m q =
     (case read_property m (string_of q) of
        Own t \<Rightarrow> (m, [HandlePostMessage t])
      | Inherited \<Rightarrow> (m, [Throws TypeError])
      | Missing \<Rightarrow> (m, [Send 400 (ascii ''No transport found for sessionId'')]))"

text \<open>\<open>app.get("/")\<close>.\<close>

definition get_root :: "registry \<Rightarrow> registry \<times> effect list" where
  "get_root m = (m, [Send 200 (ascii ''The Jokes MCP server is running!'')])"

text \<open>What reaches the server, one at a time, and the run of a list of them.\<close>

datatype event =
    GetSse "jsstring option" nat jsstring
  | ResClose jsstring
  | PostJokes "jsstring option"
  | GetRoot

fun step :: "registry \<Rightarrow> event \<Rightarrow> registry \<times> effect list" where
  "step m (GetSse host r sid) = get_sse m host r sid"
| "step m (ResClose sid) = (on_close sid m, [])"
| "step m (PostJokes q) = post_jokes m q"
| "step m GetRoot = get_root m"

fun run :: "registry \<Rightarrow> event list \<Rightarrow> registry" where
  "run m [] = m"
| "run m (e # es) = run (fst (step m e)) es"

section \<open>Auxiliary facts\<close>

lemma bind_completion_Returned:
  "bind_completion c f = Returned r \<longleftrightarrow> (\<exists>v. c = Returned v \<and> f v = Returned r)"
  by (cases c) simp_all

lemma encode_london: "encodeURIComponent (JStr (ascii ''London'')) = Returned (ascii ''London'')"
  by code_simp

lemma london_url:
  "ascii ''https://wttr.in/'' @ ascii ''London'' @ ascii ''?format=j1'' =
     ascii ''https://wttr.in/London?format=j1''"
  by (simp add: ascii_def)

lemma key_neqs:
  "ascii ''temp_C'' \<noteq> ascii ''weatherDesc''"
  "ascii ''temp_F'' \<noteq> ascii ''weatherDesc''"
  "ascii ''humidity'' \<noteq> ascii ''weatherDesc''"
  "ascii ''temp_C'' \<noteq> ascii ''temp_F''"
  "ascii ''temp_C'' \<noteq> ascii ''humidity''"
  "ascii ''temp_C'' \<noteq> ascii ''windspeedKmph''"
  "ascii ''temp_F'' \<noteq> ascii ''humidity''"
  "ascii ''temp_F'' \<noteq> ascii ''windspeedKmph''"
  "ascii ''humidity'' \<noteq> ascii ''windspeedKmph''"
  "ascii ''weatherDesc'' \<noteq> ascii ''windspeedKmph''"
  by (simp_all add: ascii_def)

text \<open>The template, once every interpolated value has a string.\<close>

lemma weather_reply_payload:
  assumes "to_string city = Returned c" "to_string desc = Returned d"
    "to_string tempC = Returned tc" "to_string tempF = Returned tf"
    "to_string humidity = Returned h" "to_string wind = Returned w"
  shows "weather_reply city
      (JObj [(ascii ''temp_C'', tempC), (ascii ''temp_F'', tempF),
             (ascii ''humidity'', humidity),
             (ascii ''weatherDesc'', JArr [JObj [(ascii ''value'', desc)]]),
             (ascii ''windspeedKmph'', wind)])
     = Returned (ascii ''Weather in '' @ c @ ascii '': '' @ d @ ascii ''. Temp '' @ tc
         @ ascii '' '' @ [0xB0] @ ascii ''C ('' @ tf @ ascii '' '' @ [0xB0]
         @ ascii ''F), Humidity '' @ h @ ascii '' %, Wind '' @ w @ ascii '' km/h.'')"
  using assms key_neqs key_neqs [symmetric]
  by (simp add: weather_reply_def own_prop_def)

lemma london_reply_eq:
  "ascii ''Weather in '' @ ascii ''London'' @ ascii '': '' @ ascii ''Cloudy'' @ ascii ''. Temp ''
     @ ascii ''15'' @ ascii '' '' @ [0xB0] @ ascii ''C ('' @ ascii ''59'' @ ascii '' '' @ [0xB0]
     @ ascii ''F), Humidity '' @ ascii ''70'' @ ascii '' %, Wind '' @ ascii ''10''
     @ ascii '' km/h.'' = london_reply"
  by code_simp

lemma london_not_empty: "ascii ''London'' \<noteq> []" "trim (ascii ''London'') = ascii ''London''"
  by (simp_all add: ascii_def trim_def is_js_space_def)

lemma weather_try_london:
  assumes f: "fetch (ascii ''https://wttr.in/London?format=j1'') [] =
      BodyJson (weather_payload desc tempC tempF humidity wind)"
    and "to_string desc = Returned (ascii ''Cloudy'')"
    and "to_string tempC = Returned (ascii ''15'')"
    and "to_string tempF = Returned (ascii ''59'')"
    and "to_string humidity = Returned (ascii ''70'')"
    and "to_string wind = Returned (ascii ''10'')"
  shows "weather_try msg fetch (JStr (ascii ''London'')) =
     Returned \<lparr>content = [\<lparr>type_field = ascii ''text'', text_field = JStr london_reply\<rparr>]\<rparr>"
proof -
  have r: "weather_reply (JStr (ascii ''London''))
      (JObj [(ascii ''temp_C'', tempC), (ascii ''temp_F'', tempF),
             (ascii ''humidity'', humidity),
             (ascii ''weatherDesc'', JArr [JObj [(ascii ''value'', desc)]]),
             (ascii ''windspeedKmph'', wind)]) = Returned london_reply"
    unfolding london_reply_eq [symmetric]
    by (rule weather_reply_payload [OF _ assms(2-6)]) simp
  show ?thesis
    by (simp add: weather_try_def encode_london london_url fetch_json_def f weather_payload_def
        own_prop_def r)
qed

text \<open>The shape of what each handler returns, on each of its returning paths.\<close>

lemma apology_shape: "apology city = Returned r \<Longrightarrow> one_text_block r \<and> string_payload r"
  by (auto simp add: apology_def bind_completion_Returned one_text_block_def string_payload_def)

lemma weather_try_shape:
  "weather_try msg fetch city = Returned r \<Longrightarrow> one_text_block r \<and> string_payload r"
  by (auto simp add: weather_try_def bind_completion_Returned one_text_block_def
      string_payload_def split: if_splits)

lemma try_catch_shape:
  "try_catch (weather_try msg fetch city) (apology city) = Returned r \<Longrightarrow>
     one_text_block r \<and> string_payload r"
  using apology_shape weather_try_shape
  by (auto simp add: try_catch_def split: completion.splits)

lemma getWeather_shape:
  "getWeather fetch params = Returned r \<Longrightarrow> one_text_block r \<and> string_payload r"
  using try_catch_shape [of "ascii ''No weather data''" fetch _ r]
  by (auto simp add: getWeather_def bind_completion_Returned split: if_splits)
     (simp_all add: one_text_block_def string_payload_def)

lemma getWeather_index1_shape:
  "getWeather_index1 fetch params = Returned r \<Longrightarrow> one_text_block r \<and> string_payload r"
  using try_catch_shape [of "ascii ''No data''" fetch _ r]
  by (auto simp add: getWeather_index1_def Let_def split: if_splits)
     (simp_all add: one_text_block_def string_payload_def)

lemma getWeather_index2_shape:
  "getWeather_index2 fetch params = Returned r \<Longrightarrow> one_text_block r \<and> string_payload r"
  using try_catch_shape [of "ascii ''No weather data''" fetch _ r]
  by (auto simp add: getWeather_index2_def bind_completion_Returned split: if_splits)
     (simp_all add: one_text_block_def string_payload_def)

lemma getWeather_index3_shape:
  "getWeather_index3 fetch params = Returned r \<Longrightarrow> one_text_block r \<and> string_payload r"
  using apology_shape [of _ r]
  by (auto simp add: getWeather_index3_def bind_completion_Returned split: if_splits)
     (simp_all add: one_text_block_def string_payload_def)

lemma getChuckCategories_shape:
  "getChuckCategories fetch = Returned r \<Longrightarrow> one_text_block r \<and> string_payload r"
  by (auto simp add: getChuckCategories_def bind_completion_Returned one_text_block_def
      string_payload_def)

lemma getChuckJoke_shape:
  "getChuckJoke fetch = Returned r \<Longrightarrow>
     one_text_block r \<and>
     (\<exists>data. fetch (ascii ''https://api.chucknorris.io/jokes/random'') [] = BodyJson data
        \<and> get_prop data (ascii ''value'') = Returned (text_field (hd (content r))))"
  by (auto simp add: getChuckJoke_def bind_completion_Returned one_text_block_def fetch_json_def
      split: upstream_reply.splits)

lemma getDadJoke_shape:
  "getDadJoke fetch = Returned r \<Longrightarrow>
     one_text_block r \<and>
     (\<exists>data. fetch (ascii ''https://icanhazdadjoke.com/'')
          [(ascii ''Accept'', ascii ''application/json'')] = BodyJson data
        \<and> get_prop data (ascii ''joke'') = Returned (text_field (hd (content r))))"
  by (auto simp add: getDadJoke_def bind_completion_Returned one_text_block_def fetch_json_def
      split: upstream_reply.splits)

lemma getYoMamaJoke_shape:
  "getYoMamaJoke fetch = Returned r \<Longrightarrow>
     one_text_block r \<and>
     (\<exists>data. fetch (ascii ''https://www.yomama-jokes.com/api/v1/jokes/random'') [] = BodyJson data
        \<and> get_prop data (ascii ''joke'') = Returned (text_field (hd (content r))))"
  by (auto simp add: getYoMamaJoke_def bind_completion_Returned one_text_block_def fetch_json_def
      split: upstream_reply.splits)

text \<open>The routes and the registry.\<close>

lemma post_jokes_registered:
  "m sid = Some t \<Longrightarrow> post_jokes m (Some sid) = (m, [HandlePostMessage t])"
  by (simp add: post_jokes_def read_property_def string_of_def)

lemma post_jokes_absent:
  "m sid = None \<Longrightarrow> \<forall>t. snd (post_jokes m (Some sid)) \<noteq> [HandlePostMessage t]"
  by (simp add: post_jokes_def read_property_def string_of_def)

lemma post_jokes_missing:
  "m sid = None \<Longrightarrow> sid \<notin> set object_prototype_names \<Longrightarrow>
     post_jokes m (Some sid) = (m, [Send 400 (ascii ''No transport found for sessionId'')])"
  by (simp add: post_jokes_def read_property_def string_of_def)

lemma step_other_key:
  "fst (step m e) k \<noteq> m k \<Longrightarrow> (\<exists>host r. e = GetSse host r k) \<or> e = ResClose k"
  by (cases e)
     (auto simp add: get_sse_def on_close_def post_jokes_def get_root_def Let_def
       split: property_read.splits if_splits)

lemma step_keeps_absent:
  "m sid = None \<Longrightarrow> \<forall>host r. e \<noteq> GetSse host r sid \<Longrightarrow> fst (step m e) sid = None"
  by (cases e)
     (auto simp add: get_sse_def on_close_def post_jokes_def get_root_def Let_def
       split: property_read.splits)

lemma run_keeps_absent:
  "m sid = None \<Longrightarrow> \<forall>host r. GetSse host r sid \<notin> set es \<Longrightarrow> run m es sid = None"
proof (induction es arbitrary: m)
  case Nil
  then show ?case by simp
next
  case (Cons e es)
  from Cons.prems have "fst (step m e) sid = None"
    by (intro step_keeps_absent) auto
  with Cons show ?case by simp
qed

text \<open>
  Where the weather handler has its \<open>try\<close> (\<open>part_000\<close>, the first two variants of
  \<open>index.ts\<close>) and the city is a string, it returns whatever the upstream does.
\<close>

lemma weather_catch_total:
  assumes "own_prop args (ascii ''city'') = JStr s"
  shows "(\<exists>r. getWeather fetch (JObj args) = Returned r)
    \<and> (\<exists>r. getWeather_index1 fetch (JObj args) = Returned r)
    \<and> (\<exists>r. getWeather_index2 fetch (JObj args) = Returned r)"
  using assms
  by (auto simp add: getWeather_def getWeather_index1_def getWeather_index2_def try_catch_def
      Let_def apology_def split: completion.splits)

section \<open>The weather reply\<close>

text \<open>
  The reply template at work. The callback is applied to arguments whose \<open>city\<close> is
  \<open>"London"\<close>, and the upstream answers the request for
  \<open>https://wttr.in/London?format=j1\<close> with a payload whose first current condition has
  the description \<open>Cloudy\<close>, \<open>temp_C\<close> 15, \<open>temp_F\<close> 59, humidity 70 and wind speed 10
  (each a string, as wttr.in sends them, or any value whose conversion to string is that
  text, such as the number). Then the callback, in each of the four variants, returns
  exactly one block of type \<open>text\<close> whose text is
  \<^verbatim>\<open>Weather in London: Cloudy. Temp 15 [deg]C (59 [deg]F), Humidity 70 %, Wind 10 km/h.\<close>
  (\<open>london_reply\<close>, with the degree sign for \<open>[deg]\<close>).
\<close>

lemma get_weather_london:
  assumes "own_prop args (ascii ''city'') = JStr (ascii ''London'')"
    and "fetch (ascii ''https://wttr.in/London?format=j1'') [] =
      BodyJson (weather_payload desc tempC tempF humidity wind)"
    and "to_string desc = Returned (ascii ''Cloudy'')"
    and "to_string tempC = Returned (ascii ''15'')"
    and "to_string tempF = Returned (ascii ''59'')"
    and "to_string humidity = Returned (ascii ''70'')"
    and "to_string wind = Returned (ascii ''10'')"
  shows "getWeather fetch (JObj args) =
       Returned \<lparr>content = [\<lparr>type_field = ascii ''text'', text_field = JStr london_reply\<rparr>]\<rparr>
     \<and> getWeather_index1 fetch (JObj args) =
       Returned \<lparr>content = [\<lparr>type_field = ascii ''text'', text_field = JStr london_reply\<rparr>]\<rparr>
     \<and> getWeather_index2 fetch (JObj args) =
       Returned \<lparr>content = [\<lparr>type_field = ascii ''text'', text_field = JStr london_reply\<rparr>]\<rparr>
     \<and> getWeather_index3 fetch (JObj args) =
       Returned \<lparr>content = [\<lparr>type_field = ascii ''text'', text_field = JStr london_reply\<rparr>]\<rparr>"
proof -
  note t = weather_try_london [of fetch, OF assms(2-7)]
  have 1: "getWeather fetch (JObj args) =
       Returned \<lparr>content = [\<lparr>type_field = ascii ''text'', text_field = JStr london_reply\<rparr>]\<rparr>"
    by (simp add: getWeather_def assms(1) london_not_empty t try_catch_def)
  have 2: "getWeather_index1 fetch (JObj args) =
       Returned \<lparr>content = [\<lparr>type_field = ascii ''text'', text_field = JStr london_reply\<rparr>]\<rparr>"
    by (simp add: getWeather_index1_def assms(1) london_not_empty t try_catch_def)
  have 3: "getWeather_index2 fetch (JObj args) =
       Returned \<lparr>content = [\<lparr>type_field = ascii ''text'', text_field = JStr london_reply\<rparr>]\<rparr>"
    by (simp add: getWeather_index2_def assms(1) london_not_empty t try_catch_def)
  have "weather_try [] fetch (JStr (ascii ''London'')) =
     Returned \<lparr>content = [\<lparr>type_field = ascii ''text'', text_field = JStr london_reply\<rparr>]\<rparr>"
    by (rule t)
  then have 4: "getWeather_index3 fetch (JObj args) =
       Returned \<lparr>content = [\<lparr>type_field = ascii ''text'', text_field = JStr london_reply\<rparr>]\<rparr>"
    by (auto simp add: getWeather_index3_def weather_try_def assms(1) bind_completion_Returned
        split: if_splits)
  from 1 2 3 4 show ?thesis by simp
qed

text \<open>An instance: the arguments \<open>{city: "London"}\<close> and the payload of strings.\<close>

lemma get_weather_london_instance:
  "getWeather (fetch_always (BodyJson london_payload))
       (JObj [(ascii ''city'', JStr (ascii ''London''))]) =
     Returned \<lparr>content = [\<lparr>type_field = ascii ''text'', text_field = JStr london_reply\<rparr>]\<rparr>
   \<and> getWeather_index1 (fetch_always (BodyJson london_payload))
       (JObj [(ascii ''city'', JStr (ascii ''London''))]) =
     Returned \<lparr>content = [\<lparr>type_field = ascii ''text'', text_field = JStr london_reply\<rparr>]\<rparr>
   \<and> getWeather_index2 (fetch_always (BodyJson london_payload))
       (JObj [(ascii ''city'', JStr (ascii ''London''))]) =
     Returned \<lparr>content = [\<lparr>type_field = ascii ''text'', text_field = JStr london_reply\<rparr>]\<rparr>
   \<and> getWeather_index3 (fetch_always (BodyJson london_payload))
       (JObj [(ascii ''city'', JStr (ascii ''London''))]) =
     Returned \<lparr>content = [\<lparr>type_field = ascii ''text'', text_field = JStr london_reply\<rparr>]\<rparr>"
proof -
  have a: "own_prop [(ascii ''city'', JStr (ascii ''London''))] (ascii ''city'') =
      JStr (ascii ''London'')"
    by (simp add: own_prop_def)
  have f: "fetch_always (BodyJson london_payload) (ascii ''https://wttr.in/London?format=j1'') [] =
      BodyJson (weather_payload (JStr (ascii ''Cloudy'')) (JStr (ascii ''15''))
        (JStr (ascii ''59'')) (JStr (ascii ''70'')) (JStr (ascii ''10'')))"
    by (simp add: fetch_always_def london_payload_def)
  from get_weather_london [of _ "fetch_always (BodyJson london_payload)", OF a f]
  show ?thesis by simp
qed


section \<open>Arguments without a city\<close>

text \<open>
  A request whose session id is registered is handed by the route to the session's
  transport. In \<open>part_000\<close> and in the first two variants of \<open>index.ts\<close> the callback
  guards on the city: applied to an object with no \<open>city\<close> it returns, whatever the
  upstream would answer, one block of type \<open>text\<close> with the guidance
  \<open>Please specify a city name (e.g. London).\<close> (in the first variant of \<open>index.ts\<close>:
  \<open>Please tell me which city.\<close>); it does not throw. What leads from the request to the
  call of the callback, and from its result to the stream, is in the SDK.
\<close>

lemma missing_city_guidance:
  assumes "m sid = Some t" and "map_of args (ascii ''city'') = None"
  shows "post_jokes m (Some sid) = (m, [HandlePostMessage t])
     \<and> getWeather fetch (JObj args) =
       Returned \<lparr>content = [\<lparr>type_field = ascii ''text'',
         text_field = JStr (ascii ''Please specify a city name (e.g. London).'')\<rparr>]\<rparr>
     \<and> getWeather_index1 fetch (JObj args) =
       Returned \<lparr>content = [\<lparr>type_field = ascii ''text'',
         text_field = JStr (ascii ''Please tell me which city.'')\<rparr>]\<rparr>
     \<and> getWeather_index2 fetch (JObj args) =
       Returned \<lparr>content = [\<lparr>type_field = ascii ''text'',
         text_field = JStr (ascii ''Please specify a city name (e.g. London).'')\<rparr>]\<rparr>"
  using assms
  by (simp add: post_jokes_registered getWeather_def getWeather_index1_def getWeather_index2_def
      own_prop_def)

lemma missing_city_guidance_instance:
  "post_jokes (fst (get_sse Map.empty None 0 (ascii ''s1''))) (Some (ascii ''s1'')) =
       (fst (get_sse Map.empty None 0 (ascii ''s1'')),
        [HandlePostMessage \<lparr>sessionId = ascii ''s1'',
           endpoint = ascii ''https://'' @ string_of None @ ascii ''/jokes'', res = 0\<rparr>])
     \<and> getWeather (fetch_always FetchRejected) (JObj [(ascii ''town'', JStr (ascii ''London''))]) =
       Returned \<lparr>content = [\<lparr>type_field = ascii ''text'',
         text_field = JStr (ascii ''Please specify a city name (e.g. London).'')\<rparr>]\<rparr>
     \<and> getWeather_index1 (fetch_always FetchRejected)
         (JObj [(ascii ''town'', JStr (ascii ''London''))]) =
       Returned \<lparr>content = [\<lparr>type_field = ascii ''text'',
         text_field = JStr (ascii ''Please tell me which city.'')\<rparr>]\<rparr>
     \<and> getWeather_index2 (fetch_always FetchRejected)
         (JObj [(ascii ''town'', JStr (ascii ''London''))]) =
       Returned \<lparr>content = [\<lparr>type_field = ascii ''text'',
         text_field = JStr (ascii ''Please specify a city name (e.g. London).'')\<rparr>]\<rparr>"
proof -
  have 1: "fst (get_sse Map.empty None 0 (ascii ''s1'')) (ascii ''s1'') =
      Some \<lparr>sessionId = ascii ''s1'',
        endpoint = ascii ''https://'' @ string_of None @ ascii ''/jokes'', res = 0\<rparr>"
    by (simp add: get_sse_def Let_def)
  have 2: "map_of [(ascii ''town'', JStr (ascii ''London''))] (ascii ''city'') = None"
    by (simp add: ascii_def)
  from 1 2 show ?thesis
    by (rule missing_city_guidance)
qed

text \<open>
  The third variant of \<open>index.ts\<close> declares its parameter as \<open>{ city: string }\<close> and
  has no guard: applied to an object with no \<open>city\<close> it asks the upstream for the city
  \<open>undefined\<close> and reports what comes back, here the weather of the payload.
\<close>

lemma third_variant_asks_for_undefined:
  "getWeather_index3 (fetch_always (BodyJson london_payload)) (JObj []) =
     Returned \<lparr>content = [\<lparr>type_field = ascii ''text'', text_field = JStr (ascii
       ''Weather in undefined: Cloudy. Temp 15 '' @ [0xB0] @ ascii ''C (59 '' @ [0xB0]
         @ ascii ''F), Humidity 70 %, Wind 10 km/h.'')\<rparr>]\<rparr>"
  by code_simp

section \<open>The shape of a result\<close>

text \<open>
  Claim C9, as amended. Whatever a registered handler returns, in each of the four
  programs and on every returning path (the guidance and the apology included), has a
  \<open>content\<close> of exactly one block, of type \<open>text\<close>. The text of that block is a string
  for \<open>get-chuck-categories\<close> and for \<open>get-weather\<close>. For \<open>get-chuck-joke\<close>,
  \<open>get-dad-joke\<close> and \<open>get-yo-mama-joke\<close> it is the value of the property \<open>value\<close>
  (\<open>joke\<close>) of the upstream's payload, as it is: a string when the upstream sent one.
\<close>

theorem handlers_return_one_text_block:
  "(\<forall>h \<in> set (handlers_part_000 fetch params @ handlers_index1 fetch params
        @ handlers_index2 fetch params @ handlers_index3 fetch params).
      \<forall>r. h = Returned r \<longrightarrow> one_text_block r)
   \<and> (\<forall>h \<in> {getChuckCategories fetch, getWeather fetch params, getWeather_index1 fetch params,
          getWeather_index2 fetch params, getWeather_index3 fetch params}.
      \<forall>r. h = Returned r \<longrightarrow> string_payload r)
   \<and> (\<forall>r. getChuckJoke fetch = Returned r \<longrightarrow>
        (\<exists>data. fetch (ascii ''https://api.chucknorris.io/jokes/random'') [] = BodyJson data
           \<and> get_prop data (ascii ''value'') = Returned (text_field (hd (content r)))))
   \<and> (\<forall>r. getDadJoke fetch = Returned r \<longrightarrow>
        (\<exists>data. fetch (ascii ''https://icanhazdadjoke.com/'')
             [(ascii ''Accept'', ascii ''application/json'')] = BodyJson data
           \<and> get_prop data (ascii ''joke'') = Returned (text_field (hd (content r)))))
   \<and> (\<forall>r. getYoMamaJoke fetch = Returned r \<longrightarrow>
        (\<exists>data. fetch (ascii ''https://www.yomama-jokes.com/api/v1/jokes/random'') [] =
             BodyJson data
           \<and> get_prop data (ascii ''joke'') = Returned (text_field (hd (content r)))))"
proof -
  have 1: "\<forall>h \<in> set (handlers_part_000 fetch params @ handlers_index1 fetch params
        @ handlers_index2 fetch params @ handlers_index3 fetch params).
      \<forall>r. h = Returned r \<longrightarrow> one_text_block r"
    using getChuckJoke_shape [of fetch] getChuckCategories_shape [of fetch]
      getDadJoke_shape [of fetch] getYoMamaJoke_shape [of fetch]
      getWeather_shape [of fetch params] getWeather_index1_shape [of fetch params]
      getWeather_index2_shape [of fetch params] getWeather_index3_shape [of fetch params]
    by (simp add: handlers_part_000_def handlers_index1_def handlers_index2_def
        handlers_index3_def)
  have 2: "\<forall>h \<in> {getChuckCategories fetch, getWeather fetch params,
          getWeather_index1 fetch params, getWeather_index2 fetch params,
          getWeather_index3 fetch params}.
      \<forall>r. h = Returned r \<longrightarrow> string_payload r"
    using getChuckCategories_shape [of fetch]
      getWeather_shape [of fetch params] getWeather_index1_shape [of fetch params]
      getWeather_index2_shape [of fetch params] getWeather_index3_shape [of fetch params]
    by simp
  from 1 2 getChuckJoke_shape [of fetch] getDadJoke_shape [of fetch]
    getYoMamaJoke_shape [of fetch]
  show ?thesis by blast
qed

text \<open>
  An instance: the upstream answers every request with the array \<open>["animal"]\<close>. The
  categories handler returns one text block with the string \<open>animal\<close>, and the weather
  handler of \<open>part_000\<close>, given no city, one text block with its guidance.
\<close>

theorem handlers_return_one_text_block_witness:
  "getChuckCategories (fetch_always (BodyJson (JArr [JStr (ascii ''animal'')]))) =
     Returned \<lparr>content = [\<lparr>type_field = ascii ''text'', text_field = JStr (ascii ''animal'')\<rparr>]\<rparr>
   \<and> one_text_block
       \<lparr>content = [\<lparr>type_field = ascii ''text'', text_field = JStr (ascii ''animal'')\<rparr>]\<rparr>
   \<and> string_payload
       \<lparr>content = [\<lparr>type_field = ascii ''text'', text_field = JStr (ascii ''animal'')\<rparr>]\<rparr>"
proof -
  let ?f = "fetch_always (BodyJson (JArr [JStr (ascii ''animal'')]))"
  let ?r = "\<lparr>content = [\<lparr>type_field = ascii ''text'', text_field = JStr (ascii ''animal'')\<rparr>]\<rparr>"
  have a: "getChuckCategories ?f = Returned ?r"
    by (simp add: getChuckCategories_def fetch_json_def fetch_always_def)
  have b: "getChuckCategories ?f \<in> set (handlers_part_000 ?f JUndefined
      @ handlers_index1 ?f JUndefined @ handlers_index2 ?f JUndefined
      @ handlers_index3 ?f JUndefined)"
    by (simp add: handlers_part_000_def)
  from handlers_return_one_text_block [of ?f JUndefined] a b
  have "one_text_block ?r \<and> string_payload ?r"
    by (metis insertI1)
  with a show ?thesis by simp
qed

text \<open>
  Claim C9 as it was stated asks for a string in every block. The joke handlers pass on
  what the upstream sent: when its payload is \<open>{}\<close>, the block's text is \<open>undefined\<close>.
\<close>

theorem joke_text_undefined:
  "getChuckJoke (fetch_always (BodyJson (JObj []))) =
     Returned \<lparr>content = [\<lparr>type_field = ascii ''text'', text_field = JUndefined\<rparr>]\<rparr>
   \<and> \<not> string_payload \<lparr>content = [\<lparr>type_field = ascii ''text'', text_field = JUndefined\<rparr>]\<rparr>"
  by (simp add: getChuckJoke_def fetch_json_def fetch_always_def own_prop_def string_payload_def)

section \<open>Closing a session\<close>

text \<open>
  Claim C4. The close callback is idempotent and removes the session's own entry,
  leaving the others. From then on, as long as the SDK does not hand out the same
  identifier to a new stream (whatever else happens: requests, other streams opening
  and closing), the registry has no entry for the identifier, a read of it yields no
  transport, and a request that names it is never handed to a transport; the route
  answers 400 \<open>No transport found for sessionId\<close> (for an identifier that is not the
  name of a member of \<open>Object.prototype\<close>, which the SDK's UUIDs never are).
\<close>

theorem close_forgets_session:
  "on_close sid (on_close sid m) = on_close sid m
   \<and> on_close sid m sid = None
   \<and> (\<forall>k. k \<noteq> sid \<longrightarrow> on_close sid m k = m k)
   \<and> (\<forall>t. read_property (on_close sid m) sid \<noteq> Own t)
   \<and> (\<forall>es. (\<forall>host r. GetSse host r sid \<notin> set es) \<longrightarrow>
        run (on_close sid m) es sid = None
        \<and> (\<forall>t. read_property (run (on_close sid m) es) sid \<noteq> Own t)
        \<and> (\<forall>t. snd (post_jokes (run (on_close sid m) es) (Some sid)) \<noteq> [HandlePostMessage t])
        \<and> (sid \<notin> set object_prototype_names \<longrightarrow>
             snd (post_jokes (run (on_close sid m) es) (Some sid)) =
               [Send 400 (ascii ''No transport found for sessionId'')]))"
proof -
  have a: "on_close sid m sid = None"
    by (simp add: on_close_def)
  have b: "run (on_close sid m) es sid = None" if "\<forall>host r. GetSse host r sid \<notin> set es" for es
    using a that by (rule run_keeps_absent)
  have c: "\<forall>t. read_property (run (on_close sid m) es) sid \<noteq> Own t"
    if "\<forall>host r. GetSse host r sid \<notin> set es" for es
    using b [OF that] by (simp add: read_property_def)
  have d: "\<forall>t. snd (post_jokes (run (on_close sid m) es) (Some sid)) \<noteq> [HandlePostMessage t]"
    if "\<forall>host r. GetSse host r sid \<notin> set es" for es
    using b [OF that] by (rule post_jokes_absent)
  have e: "snd (post_jokes (run (on_close sid m) es) (Some sid)) =
      [Send 400 (ascii ''No transport found for sessionId'')]"
    if "\<forall>host r. GetSse host r sid \<notin> set es" and "sid \<notin> set object_prototype_names" for es
    using post_jokes_missing [of "run (on_close sid m) es" sid] b [OF that(1)] that(2) by simp
  have f: "on_close sid (on_close sid m) = on_close sid m"
    by (simp add: on_close_def)
  have g: "\<forall>k. k \<noteq> sid \<longrightarrow> on_close sid m k = m k"
    by (simp add: on_close_def)
  have h: "\<forall>t. read_property (on_close sid m) sid \<noteq> Own t"
    using a by (simp add: read_property_def)
  from a b c d e f g h show ?thesis by blast
qed

text \<open>
  A run: the stream \<open>s1\<close> opens and closes; then a request for \<open>s1\<close>, another stream
  \<open>s2\<close> and a probe arrive. \<open>s1\<close> stays unknown and a request for it gets the 400.
\<close>

theorem close_forgets_session_witness:
  "run (on_close (ascii ''s1'') (fst (get_sse Map.empty None 0 (ascii ''s1''))))
      [PostJokes (Some (ascii ''s1'')), GetSse None 1 (ascii ''s2''), GetRoot] (ascii ''s1'') = None
   \<and> snd (post_jokes
        (run (on_close (ascii ''s1'') (fst (get_sse Map.empty None 0 (ascii ''s1''))))
           [PostJokes (Some (ascii ''s1'')), GetSse None 1 (ascii ''s2''), GetRoot])
        (Some (ascii ''s1''))) = [Send 400 (ascii ''No transport found for sessionId'')]"
proof -
  have 1: "\<forall>host r. GetSse host r (ascii ''s1'') \<notin>
      set [PostJokes (Some (ascii ''s1'')), GetSse None 1 (ascii ''s2''), GetRoot]"
    by (simp add: ascii_def)
  have 2: "ascii ''s1'' \<notin> set object_prototype_names"
    by (simp add: object_prototype_names_def ascii_def)
  from close_forgets_session [of "ascii ''s1''" "fst (get_sse Map.empty None 0 (ascii ''s1''))"] 1 2
  show ?thesis by blast
qed

section \<open>What a request does to the registry\<close>

text \<open>
  Claim C10. Handling a POST request leaves the registry as it was, and so does any run
  of POST requests. Of all the events, only the opening of a stream with identifier \<open>k\<close>
  or the close callback for \<open>k\<close> changes what the registry holds at \<open>k\<close>: an entry
  appears only by the former and disappears only by the latter.
\<close>

theorem post_jokes_leaves_registry:
  "fst (post_jokes m q) = m
   \<and> run m (map PostJokes qs) = m
   \<and> (\<forall>e k. fst (step m e) k \<noteq> m k \<longrightarrow> (\<exists>host r. e = GetSse host r k) \<or> e = ResClose k)
   \<and> (\<forall>e k. m k = None \<and> fst (step m e) k \<noteq> None \<longrightarrow> (\<exists>host r. e = GetSse host r k))
   \<and> (\<forall>e k. m k \<noteq> None \<and> fst (step m e) k = None \<longrightarrow> e = ResClose k)"
proof -
  have a: "fst (post_jokes m' q') = m'" for m' q'
    by (simp add: post_jokes_def split: property_read.splits)
  have b: "run m (map PostJokes qs) = m"
    by (induction qs) (simp_all add: a)
  have c: "(\<exists>host r. e = GetSse host r k) \<or> e = ResClose k" if "fst (step m e) k \<noteq> m k" for e k
    using that by (rule step_other_key)
  have d: "\<exists>host r. e = GetSse host r k" if "m k = None \<and> fst (step m e) k \<noteq> None" for e k
    using that c [of e k] by (auto simp add: on_close_def)
  have e: "e = ResClose k" if "m k \<noteq> None \<and> fst (step m e) k = None" for e k
    using that c [of e k] by (auto simp add: get_sse_def Let_def)
  from a b c d e show ?thesis by blast
qed

text \<open>An instance: opening the stream \<open>s1\<close> on the empty registry changes it at \<open>s1\<close>.\<close>

theorem post_jokes_leaves_registry_witness:
  "fst (step Map.empty (GetSse None 0 (ascii ''s1''))) (ascii ''s1'') \<noteq> Map.empty (ascii ''s1'')
   \<and> ((\<exists>host r. GetSse None 0 (ascii ''s1'') = GetSse host r (ascii ''s1''))
        \<or> GetSse None 0 (ascii ''s1'') = ResClose (ascii ''s1''))
   \<and> fst (post_jokes Map.empty (Some (ascii ''s1''))) = Map.empty"
proof -
  have 1: "fst (step Map.empty (GetSse None 0 (ascii ''s1''))) (ascii ''s1'') \<noteq>
      Map.empty (ascii ''s1'')"
    by (simp add: get_sse_def Let_def)
  note t = post_jokes_leaves_registry [of Map.empty "Some (ascii ''s1'')" "[]"]
  from t have 2: "fst (post_jokes Map.empty (Some (ascii ''s1''))) = Map.empty"
    by (rule conjunct1)
  from t have "\<forall>e k. fst (step Map.empty e) k \<noteq> Map.empty k \<longrightarrow>
      (\<exists>host r. e = GetSse host r k) \<or> e = ResClose k"
    by (elim conjE)
  with 1 have 3: "(\<exists>host r. GetSse None 0 (ascii ''s1'') = GetSse host r (ascii ''s1''))
        \<or> GetSse None 0 (ascii ''s1'') = ResClose (ascii ''s1'')"
    by (elim allE impE)
  from 1 2 3 show ?thesis by (intro conjI)
qed

section \<open>A request for an unknown session\<close>

text \<open>
  Claim C1 asks that every request whose session id is not registered is answered 400
  and reaches no handler and no stream. For an id that no object inherits this is
  \<open>post_jokes_missing\<close>, and no request for an unregistered id is handed to a transport
  (\<open>post_jokes_absent\<close>). But the registry is an object literal: with nothing
  registered, the request \<open>POST /jokes?sessionId=constructor\<close> reads the inherited
  \<open>Object\<close> function, which is truthy, calls its missing \<open>handlePostMessage\<close>, and
  throws a TypeError where the claim has the 400.
\<close>

theorem inherited_name_not_rejected:
  "post_jokes Map.empty (Some (ascii ''constructor'')) = (Map.empty, [Throws TypeError])"
  by (simp add: post_jokes_def read_property_def string_of_def object_prototype_names_def
      ascii_def)

section \<open>A failing upstream\<close>

text \<open>
  Claim C2 asks that every handler turns a failure of its upstream call into a result.
  The weather handler with its \<open>try\<close> does (\<open>weather_catch_total\<close>). The four joke
  handlers have no \<open>try\<close>, nor has the weather handler of the third variant of
  \<open>index.ts\<close>: when \<open>fetch\<close> rejects, when the body is not JSON, or when the categories
  are not an array, the handler itself throws.
\<close>

theorem joke_handlers_throw:
  "getChuckJoke (fetch_always FetchRejected) = Thrown FetchFailed
   \<and> getChuckCategories (fetch_always FetchRejected) = Thrown FetchFailed
   \<and> getDadJoke (fetch_always FetchRejected) = Thrown FetchFailed
   \<and> getYoMamaJoke (fetch_always FetchRejected) = Thrown FetchFailed
   \<and> getChuckJoke (fetch_always BodyNotJson) = Thrown SyntaxError
   \<and> getChuckCategories (fetch_always (BodyJson (JObj []))) = Thrown TypeError
   \<and> getWeather_index3 (fetch_always FetchRejected)
       (JObj [(ascii ''city'', JStr (ascii ''London''))]) = Thrown FetchFailed"
  by (simp add: getChuckJoke_def getChuckCategories_def getDadJoke_def getYoMamaJoke_def
      getWeather_index3_def fetch_json_def fetch_always_def own_prop_def encode_london)

end
